theory Spec2Isabelle
  imports Main
begin

section \<open>The alert provider of hfFrontend (AlertContext)\<close>

text \<open>
  The provider component \<open>AlertProvider\<close> keeps the alert feed in React state and
  changes it from four places: the paginated fetches (\<open>fetchInitialAlerts\<close>,
  \<open>loadMore\<close>), the STOMP subscription handlers, \<open>readAlerts\<close> and
  \<open>handleFriendRequest\<close>. Every asynchronous function is split at its
  \<open>await\<close>: the request it issues when called, and the state transformer it
  applies once the reply has arrived. The transformers are the functional updaters
  (\<open>prev => ...\<close>) of the source, so they act on the state current at that
  moment.
\<close>

subsection \<open>Data\<close>

text \<open>
  The interface \<open>Alert\<close> is imported from \<open>types/Alert\<close>. The provider reads and
  writes the fields \<open>id\<close>, \<open>isRead\<close> and \<open>processedAction\<close>; everything else
  an alert carries is passed through untouched and kept in \<open>payload\<close>.
  The field \<open>id\<close> is named \<open>alert_id\<close> here.
\<close>

record alert =
  alert_id :: int
  isRead :: bool
  processedAction :: "string option"
  payload :: string

text \<open>The \<open>useState\<close> cells of the provider.\<close>

record provider =
  alerts :: "alert list"
  toast :: "alert option"
  hasMore :: bool
  page :: int
  unreadAlerts :: "int list"
  processedAlerts :: "(int \<times> string) list"

text \<open>The initial values given to \<open>useState\<close>.\<close>

definition initial :: provider where
  "initial = \<lparr>alerts = [], toast = None, hasMore = True, page = 0,
              unreadAlerts = [], processedAlerts = []\<rparr>"

text \<open>The parameter \<open>action: 'accept' | 'reject'\<close>.\<close>

datatype action = Accept | Reject

text \<open>The requests the provider sends with \<open>fetch\<close>.\<close>

datatype request =
    GetAlerts int int
  | PatchAlerts "int list"
  | PostFriendRequest int action

text \<open>
  What comes back from \<open>GET /api/v1/alerts\<close>, as far as \<open>loadMore\<close> looks at it:
  \<open>fetch\<close> or \<open>response.json()\<close> rejects (\<open>Rejected\<close>), or there is a body with
  its \<open>resultCode\<close> and its list \<open>data.data.content\<close>. The list is \<open>None\<close> when
  there is none to read: \<open>data.data\<close> is missing, or \<open>content\<close> is undefined or
  null. In \<open>loadMore\<close> each of these throws a TypeError before any setter is
  called. The HTTP status is not inspected on this path.
\<close>

datatype alerts_reply =
    Rejected
  | Body string "alert list option"

text \<open>
  \<open>fetchInitialAlerts\<close> hands \<open>data.data.content\<close> to \<open>setAlerts\<close> before it reads
  its length, so for this function a body without \<open>data.data\<close> (\<open>NoData\<close>) and a
  body whose \<open>data.data\<close> has an undefined or null \<open>content\<close> (\<open>NoContent\<close>) are
  different replies.
\<close>

datatype page_data =
    NoData
  | NoContent
  | Content "alert list"

datatype initial_reply =
    InitialRejected
  | InitialBody string page_data

text \<open>
  The state after \<open>setAlerts\<close> has been given a value that is no list: the cell
  \<open>alerts\<close> holds undefined or null, which no \<open>provider\<close> record stands for.
\<close>

datatype broken = AlertsNotAList

text \<open>
  What comes back from the PATCH and POST calls: \<open>fetch\<close> rejects, or there is a
  response with a status code; \<open>response.ok\<close> is true for 200 to 299.
\<close>

datatype http_reply =
    NetworkError
  | Status nat

fun ok :: "http_reply \<Rightarrow> bool" where
  "ok NetworkError = False"
| "ok (Status c) = (200 \<le> c \<and> c \<le> 299)"

text \<open>
  The body of a STOMP frame, by what \<open>JSON.parse\<close> makes of it: an alert, or a
  SyntaxError.
\<close>

datatype frame_body =
    Json alert
  | Malformed string

fun JSON_parse :: "frame_body \<Rightarrow> alert option" where
  "JSON_parse (Json a) = Some a"
| "JSON_parse (Malformed _) = None"

text \<open>The event handed to \<open>window.dispatchEvent\<close>: its name and its \<open>detail\<close>.\<close>

datatype custom_event = CustomEvent string int action

subsection \<open>The effects on \<open>alerts\<close>\<close>

text \<open>
  \<open>alerts.filter(alert => !alert.isRead).map(alert => alert.id)\<close>, computed by the
  effect on \<open>[alerts]\<close> and by the effect on \<open>[isOpen]\<close>.
\<close>

definition unreadAlertIds :: "alert list \<Rightarrow> int list" where
  "unreadAlertIds as = map alert_id (filter (\<lambda>a. \<not> isRead a) as)"

text \<open>The effect on \<open>[alerts]\<close>: \<open>setUnreadAlerts(newUnreadAlerts)\<close>.\<close>

definition alertsEffect :: "provider \<Rightarrow> provider" where
  "alertsEffect s = s\<lparr>unreadAlerts := unreadAlertIds (alerts s)\<rparr>"

text \<open>The context value \<open>unreadCount: unreadAlerts.length\<close>.\<close>

definition unreadCount :: "provider \<Rightarrow> nat" where
  "unreadCount s = length (unreadAlerts s)"

subsection \<open>Paginated fetches\<close>

text \<open>
  \<open>fetchInitialAlerts\<close>: page 0, and on result code "200"
  \<open>setAlerts(data.data.content)\<close>, \<open>setHasMore(data.data.content.length === 10)\<close>
  and \<open>setPage(0)\<close>, in this order. Without \<open>data.data\<close> the argument of
  \<open>setAlerts\<close> throws and nothing is set. With \<open>data.data\<close> but no \<open>content\<close>,
  \<open>setAlerts\<close> has run when \<open>.length\<close> throws. Every exception is caught and logged.
\<close>

definition fetchInitialAlerts_request :: "request list" where
  "fetchInitialAlerts_request = [GetAlerts 0 10]"

fun fetchInitialAlerts_settle :: "initial_reply \<Rightarrow> provider \<Rightarrow> broken + provider" where
  "fetchInitialAlerts_settle InitialRejected s = Inr s"
| "fetchInitialAlerts_settle (InitialBody rc d) s =
     (if rc = ''200''
      then (case d of
              NoData \<Rightarrow> Inr s
            | NoContent \<Rightarrow> Inl AlertsNotAList
            | Content content \<Rightarrow>
                Inr (s\<lparr>alerts := content, hasMore := (length content = 10), page := 0\<rparr>))
      else Inr s)"

text \<open>
  \<open>loadMore\<close>: the request is built from the \<open>page\<close> of the state in which it is
  called, with no test of \<open>hasMore\<close>.
\<close>

definition loadMore_request :: "provider \<Rightarrow> request list" where
  "loadMore_request s = [GetAlerts (page s + 1) 10]"

text \<open>
  After the \<open>await\<close>: on result code "200", \<open>setHasMore(false)\<close> when fewer than ten
  alerts came, then \<open>setAlerts(prev => [...prev, ...newAlerts])\<close> and
  \<open>setPage(prev => prev + 1)\<close>. Any exception is caught and logged.
\<close>

fun loadMore_settle :: "alerts_reply \<Rightarrow> provider \<Rightarrow> provider" where
  "loadMore_settle Rejected s = s"
| "loadMore_settle (Body rc None) s = s"
| "loadMore_settle (Body rc (Some newAlerts)) s =
     (if rc = ''200''
      then (let s1 = (if length newAlerts < 10 then s\<lparr>hasMore := False\<rparr> else s)
            in s1\<lparr>alerts := alerts s1 @ newAlerts, page := page s1 + 1\<rparr>)
      else s)"

text \<open>A call of \<open>loadMore\<close> that nothing interleaves with: the request and the new state.\<close>

definition loadMore :: "alerts_reply \<Rightarrow> provider \<Rightarrow> request list \<times> provider" where
  "loadMore reply s = (loadMore_request s, loadMore_settle reply s)"

subsection \<open>Subscription handlers\<close>

text \<open>
  The handler of \<open>/queue/alerts\<close>: \<open>JSON.parse\<close>, then
  \<open>setAlerts(prev => [newAlert, ...prev])\<close>. A SyntaxError leaves the handler before
  \<open>setAlerts\<close>.
\<close>

definition onAlertMessage :: "frame_body \<Rightarrow> provider \<Rightarrow> provider" where
  "onAlertMessage body s =
     (case JSON_parse body of
        None \<Rightarrow> s
      | Some newAlert \<Rightarrow> s\<lparr>alerts := newAlert # alerts s\<rparr>)"

text \<open>The handler of \<open>/queue/toast-alerts\<close>: \<open>setToast(newAlert)\<close>.\<close>

definition onToastMessage :: "frame_body \<Rightarrow> provider \<Rightarrow> provider" where
  "onToastMessage body s =
     (case JSON_parse body of
        None \<Rightarrow> s
      | Some newAlert \<Rightarrow> s\<lparr>toast := Some newAlert\<rparr>)"

subsection \<open>Read acknowledgement\<close>

definition readAlerts_request :: "int list \<Rightarrow> request list" where
  "readAlerts_request alertIds = [PatchAlerts alertIds]"

text \<open>
  After the \<open>await\<close>: when \<open>response.ok\<close>, the alerts whose id is among \<open>alertIds\<close>
  get \<open>isRead: true\<close> and \<open>unreadAlerts\<close> loses those ids.
\<close>

definition readAlerts_settle :: "http_reply \<Rightarrow> int list \<Rightarrow> provider \<Rightarrow> provider" where
  "readAlerts_settle reply alertIds s =
     (if ok reply
      then s\<lparr>alerts := map (\<lambda>a. if alert_id a \<in> set alertIds
                                   then a\<lparr>isRead := True\<rparr> else a) (alerts s),
              unreadAlerts := filter (\<lambda>i. i \<notin> set alertIds) (unreadAlerts s)\<rparr>
      else s)"

text \<open>
  The effect on \<open>[isOpen]\<close>, run with the new value of \<open>isOpen\<close>: the calls of
  \<open>readAlerts\<close> it makes, each with its argument.
\<close>

definition isOpenEffect :: "bool \<Rightarrow> provider \<Rightarrow> int list list" where
  "isOpenEffect isOpen s =
     (if \<not> isOpen \<and> length (alerts s) > 0
      then (let unreadAlertIds' = unreadAlertIds (alerts s)
            in if length unreadAlertIds' > 0 then [unreadAlertIds'] else [])
      else [])"

text \<open>
  A render in which the prop \<open>isOpen\<close> goes from \<open>before\<close> to \<open>after\<close>: React runs
  the effect when the dependency has changed.
\<close>

definition isOpenChanged :: "bool \<Rightarrow> bool \<Rightarrow> provider \<Rightarrow> int list list" where
  "isOpenChanged before after s =
     (if before \<noteq> after then isOpenEffect after s else [])"

subsection \<open>Friend requests\<close>

text \<open>
  The two literals written to \<open>processedAction\<close>, as their UTF-8 bytes
  (13 bytes each; they differ in the first two syllables).
\<close>

definition acceptLabel :: string where
  "acceptLabel = [CHR 0xEC, CHR 0x88, CHR 0x98, CHR 0xEB, CHR 0x9D, CHR 0xBD, CHR 0x20,
                  CHR 0xEC, CHR 0x99, CHR 0x84, CHR 0xEB, CHR 0xA3, CHR 0x8C]"

definition rejectLabel :: string where
  "rejectLabel = [CHR 0xEA, CHR 0xB1, CHR 0xB0, CHR 0xEC, CHR 0xA0, CHR 0x88, CHR 0x20,
                  CHR 0xEC, CHR 0x99, CHR 0x84, CHR 0xEB, CHR 0xA3, CHR 0x8C]"

text \<open>\<open>action === 'accept' ? ... : ...\<close>\<close>

fun actionLabel :: "action \<Rightarrow> string" where
  "actionLabel Accept = acceptLabel"
| "actionLabel Reject = rejectLabel"

definition handleFriendRequest_request :: "int \<Rightarrow> action \<Rightarrow> request list" where
  "handleFriendRequest_request requestId act = [PostFriendRequest requestId act]"

text \<open>
  After the \<open>await\<close>: when \<open>response.ok\<close>, every alert with \<open>alert.id === alertId\<close>
  gets the label of the action, and the event \<open>friendRequestProcessed\<close> is
  dispatched. The result is the new state and the events dispatched.
\<close>

definition handleFriendRequest_settle ::
  "http_reply \<Rightarrow> int \<Rightarrow> int \<Rightarrow> action \<Rightarrow> provider \<Rightarrow> provider \<times> custom_event list" where
  "handleFriendRequest_settle reply requestId alertId act s =
     (if ok reply
      then (s\<lparr>alerts := map (\<lambda>a. if alert_id a = alertId
                                    then a\<lparr>processedAction := Some (actionLabel act)\<rparr>
                                    else a) (alerts s)\<rparr>,
            [CustomEvent ''friendRequestProcessed'' requestId act])
      else (s, []))"

subsection \<open>Runs of pushes and page loads\<close>

datatype feed_op =
    Push frame_body
  | LoadMore alerts_reply

fun feed_step :: "feed_op \<Rightarrow> provider \<Rightarrow> provider" where
  "feed_step (Push body) s = onAlertMessage body s"
| "feed_step (LoadMore reply) s = loadMore_settle reply s"

fun feed_run :: "feed_op list \<Rightarrow> provider \<Rightarrow> provider" where
  "feed_run [] s = s"
| "feed_run (x # xs) s = feed_run xs (feed_step x s)"

text \<open>
  For stating what a run leaves in the feed: the alerts it delivers by push (the
  frames that decode), and those it delivers by page load (the lists of the replies
  with result code "200"), each in the order of delivery.
\<close>

fun pushed :: "feed_op list \<Rightarrow> alert list" where
  "pushed [] = []"
| "pushed (Push (Json a) # xs) = a # pushed xs"
| "pushed (_ # xs) = pushed xs"

fun fetched :: "feed_op list \<Rightarrow> alert list" where
  "fetched [] = []"
| "fetched (LoadMore (Body rc (Some newAlerts)) # xs) =
     (if rc = ''200'' then newAlerts @ fetched xs else fetched xs)"
| "fetched (_ # xs) = fetched xs"

subsection \<open>Sample data\<close>

definition mkAlert :: "int \<Rightarrow> bool \<Rightarrow> string option \<Rightarrow> alert" where
  "mkAlert i r p = \<lparr>alert_id = i, isRead = r, processedAction = p, payload = []\<rparr>"

definition mkFeed :: "alert list \<Rightarrow> bool \<Rightarrow> int \<Rightarrow> provider" where
  "mkFeed as h p = \<lparr>alerts = as, toast = None, hasMore = h, page = p,
                    unreadAlerts = unreadAlertIds as, processedAlerts = []\<rparr>"

text \<open>A full page: ten unread alerts with the ids 1 to 10.\<close>

definition tenAlerts :: "alert list" where
  "tenAlerts = map (\<lambda>i. mkAlert i False None) [1, 2, 3, 4, 5, 6, 7, 8, 9, 10]"

section \<open>Properties\<close>

lemma onAlertMessage_Json [simp]:
  "onAlertMessage (Json a) s = s\<lparr>alerts := a # alerts s\<rparr>"
  by (simp add: onAlertMessage_def)

lemma onAlertMessage_Malformed [simp]:
  "onAlertMessage (Malformed t) s = s"
  by (simp add: onAlertMessage_def)

subsection \<open>Push and page load on the same feed\<close>

lemma loadMore_settle_push_commute:
  "loadMore_settle reply (onAlertMessage body s) = onAlertMessage body (loadMore_settle reply s)"
  by (cases "(reply, s)" rule: loadMore_settle.cases; cases body) (simp_all add: Let_def)

text \<open>
  C6. An alert pushed while a \<open>loadMore\<close> fetch is suspended is not lost. The
  push handler and the continuation of \<open>loadMore\<close> both update the alerts current
  when they run, the first at the head and the second at the tail, so they commute
  on every state, reply and frame; with a decoded alert \<open>a\<close> and a fetched batch
  \<open>newAlerts\<close> either order ends with \<open>a\<close> first, the old alerts next and the
  batch last.
\<close>

theorem push_during_loadMore_not_lost:
  "loadMore_settle reply (onAlertMessage body s) = onAlertMessage body (loadMore_settle reply s)
   \<and> alerts (loadMore_settle (Body ''200'' (Some newAlerts)) (onAlertMessage (Json a) s))
       = a # alerts s @ newAlerts
   \<and> alerts (onAlertMessage (Json a) (loadMore_settle (Body ''200'' (Some newAlerts)) s))
       = a # alerts s @ newAlerts"
  by (cases "(reply, s)" rule: loadMore_settle.cases; cases body) (simp_all add: Let_def)

theorem push_during_loadMore_not_lost_witness:
  "map alert_id (alerts (loadMore_settle (Body ''200'' (Some [mkAlert 2 True None, mkAlert 3 False None]))
      (onAlertMessage (Json (mkAlert 11 False None)) (mkFeed [mkAlert 1 False None] True 0))))
     = [11, 1, 2, 3]
   \<and> map alert_id (alerts (onAlertMessage (Json (mkAlert 11 False None))
      (loadMore_settle (Body ''200'' (Some [mkAlert 2 True None, mkAlert 3 False None]))
         (mkFeed [mkAlert 1 False None] True 0))))
     = [11, 1, 2, 3]"
  using push_during_loadMore_not_lost
    [of "Rejected" "Malformed []" "mkFeed [mkAlert 1 False None] True 0"
        "[mkAlert 2 True None, mkAlert 3 False None]" "mkAlert 11 False None"]
  by (simp add: mkFeed_def mkAlert_def)

subsection \<open>What a run of pushes and page loads leaves in the feed\<close>

lemma feed_step_alerts:
  "alerts (feed_step x s) = pushed [x] @ alerts s @ fetched [x]"
  by (cases "[x]" rule: fetched.cases; cases "[x]" rule: pushed.cases) (auto simp: Let_def)

lemma pushed_Cons: "pushed (x # xs) = pushed [x] @ pushed xs"
  by (cases "x # xs" rule: pushed.cases) auto

lemma fetched_Cons: "fetched (x # xs) = fetched [x] @ fetched xs"
  by (cases "x # xs" rule: fetched.cases) auto

lemma pushed_single: "pushed [x] = [] \<or> (\<exists>a. pushed [x] = [a])"
  by (cases "[x]" rule: pushed.cases) auto

lemma feed_run_alerts:
  "alerts (feed_run ops s) = rev (pushed ops) @ alerts s @ fetched ops"
proof (induction ops arbitrary: s)
  case Nil
  show ?case by simp
next
  case (Cons x xs)
  have "rev (pushed [x]) = pushed [x]"
    using pushed_single [of x] by auto
  then show ?case
    using Cons.IH [of "feed_step x s"]
    by (simp add: feed_step_alerts pushed_Cons [of x xs] fetched_Cons [of x xs])
qed

text \<open>
  C1, as stated: after any run of pushes and page loads from a feed with distinct
  ids, every id occurs at most once, a re-delivered id not being inserted. The
  code inserts whatever is delivered: pushing an alert with id 1 onto a feed that
  holds id 1 gives a feed with id 1 twice.
\<close>

theorem redelivered_id_counterexample:
  "distinct (map alert_id (alerts (mkFeed [mkAlert 1 False None] True 0))) \<and>
   \<not> distinct (map alert_id (alerts
        (feed_run [Push (Json (mkAlert 1 False None))] (mkFeed [mkAlert 1 False None] True 0))))"
  by (simp add: mkFeed_def mkAlert_def)

text \<open>
  C1, amended: after any run of pushes and page loads from a feed with distinct
  ids, the ids of the feed are distinct exactly when the ids of the delivered
  alerts (pushed and fetched) are distinct among themselves and from the ids the
  feed began with.
\<close>

theorem feed_run_distinct_iff:
  assumes "distinct (map alert_id (alerts s))"
  shows "distinct (map alert_id (alerts (feed_run ops s))) \<longleftrightarrow>
         distinct (map alert_id (pushed ops @ fetched ops)) \<and>
         alert_id ` set (pushed ops @ fetched ops) \<inter> alert_id ` set (alerts s) = {}"
  using assms by (auto simp: feed_run_alerts rev_map [symmetric])

theorem feed_run_distinct_iff_witness:
  "distinct (map alert_id (alerts (mkFeed [mkAlert 1 False None] True 0))) \<and>
   distinct (map alert_id (alerts
      (feed_run [Push (Json (mkAlert 11 False None)),
                 LoadMore (Body ''200'' (Some [mkAlert 2 True None, mkAlert 3 False None]))]
         (mkFeed [mkAlert 1 False None] True 0))))"
  using feed_run_distinct_iff [of "mkFeed [mkAlert 1 False None] True 0"
      "[Push (Json (mkAlert 11 False None)),
        LoadMore (Body ''200'' (Some [mkAlert 2 True None, mkAlert 3 False None]))]"]
  by (simp add: mkFeed_def mkAlert_def)

subsection \<open>The push handler\<close>

text \<open>
  C4, as stated: every pushed alert is prepended with \<open>isRead = false\<close>. The
  handler stores the decoded object as it is; a frame whose payload says
  \<open>isRead: true\<close> puts a read alert at the head of the feed.
\<close>

theorem pushed_isRead_true_counterexample:
  "\<not> (isRead (hd (alerts (onAlertMessage (Json (mkAlert 7 True None)) initial))) = False)"
  by (simp add: mkAlert_def initial_def)

text \<open>
  C4, amended: for every frame that decodes to an alert \<open>a\<close> and every state, the
  alert is prepended at the head of the alerts as decoded, its \<open>isRead\<close> being the
  one of the payload, and \<open>page\<close> and \<open>hasMore\<close> are unchanged.
\<close>

theorem onAlertMessage_prepends:
  assumes "JSON_parse body = Some a"
  shows "alerts (onAlertMessage body s) = a # alerts s
         \<and> isRead (hd (alerts (onAlertMessage body s))) = isRead a
         \<and> page (onAlertMessage body s) = page s
         \<and> hasMore (onAlertMessage body s) = hasMore s"
  using assms by (simp add: onAlertMessage_def)

theorem onAlertMessage_prepends_witness:
  "JSON_parse (Json (mkAlert 11 False None)) = Some (mkAlert 11 False None)
   \<and> map alert_id (alerts (onAlertMessage (Json (mkAlert 11 False None))
          (mkFeed [mkAlert 1 False None] True 0))) = [11, 1]
   \<and> isRead (hd (alerts (onAlertMessage (Json (mkAlert 11 False None))
          (mkFeed [mkAlert 1 False None] True 0)))) = False
   \<and> page (onAlertMessage (Json (mkAlert 11 False None)) (mkFeed [mkAlert 1 False None] True 0)) = 0
   \<and> hasMore (onAlertMessage (Json (mkAlert 11 False None)) (mkFeed [mkAlert 1 False None] True 0))"
proof -
  have h: "JSON_parse (Json (mkAlert 11 False None)) = Some (mkAlert 11 False None)"
    by simp
  show ?thesis
    using h onAlertMessage_prepends [OF h, of "mkFeed [mkAlert 1 False None] True 0"]
    by (simp add: mkFeed_def mkAlert_def)
qed

subsection \<open>Loading a page\<close>

text \<open>
  C2, as stated: with \<open>hasMore\<close> false, \<open>loadMore\<close> sends nothing and changes
  nothing. The function does not read \<open>hasMore\<close>: on the empty feed with
  \<open>hasMore = false\<close> and \<open>page = 0\<close> it asks for page 1, and when the server
  answers "200" with one alert, the alert is appended and \<open>page\<close> becomes 1.
\<close>

theorem loadMore_without_hasMore_counterexample:
  "\<not> hasMore (mkFeed [] False 0)
   \<and> fst (loadMore (Body ''200'' (Some [mkAlert 1 False None])) (mkFeed [] False 0)) = [GetAlerts 1 10]
   \<and> alerts (snd (loadMore (Body ''200'' (Some [mkAlert 1 False None])) (mkFeed [] False 0)))
        \<noteq> alerts (mkFeed [] False 0)
   \<and> page (snd (loadMore (Body ''200'' (Some [mkAlert 1 False None])) (mkFeed [] False 0)))
        \<noteq> page (mkFeed [] False 0)"
  by (simp add: loadMore_def loadMore_request_def mkFeed_def mkAlert_def)

text \<open>
  C2, amended: in every state with \<open>hasMore\<close> false, \<open>loadMore\<close> still requests
  page \<open>page + 1\<close> of size 10, and \<open>hasMore\<close> stays false whatever the reply. The
  state is unchanged when the fetch does not succeed (a rejection, a result code
  other than "200", or no list of alerts); when it succeeds the alerts are
  appended and \<open>page\<close> grows by one.
\<close>

theorem loadMore_hasMore_False:
  assumes "\<not> hasMore s"
  shows "fst (loadMore reply s) = [GetAlerts (page s + 1) 10]
         \<and> \<not> hasMore (snd (loadMore reply s))
         \<and> ((\<forall>newAlerts. reply \<noteq> Body ''200'' (Some newAlerts)) \<longrightarrow> snd (loadMore reply s) = s)
         \<and> (\<forall>newAlerts. reply = Body ''200'' (Some newAlerts) \<longrightarrow>
               alerts (snd (loadMore reply s)) = alerts s @ newAlerts
               \<and> page (snd (loadMore reply s)) = page s + 1)"
  using assms
  by (cases "(reply, s)" rule: loadMore_settle.cases)
     (simp_all add: loadMore_def loadMore_request_def Let_def)

theorem loadMore_hasMore_False_witness:
  "\<not> hasMore (mkFeed [mkAlert 1 True None] False 0)
   \<and> fst (loadMore (Body ''500'' None) (mkFeed [mkAlert 1 True None] False 0)) = [GetAlerts 1 10]
   \<and> snd (loadMore (Body ''500'' None) (mkFeed [mkAlert 1 True None] False 0))
       = mkFeed [mkAlert 1 True None] False 0
   \<and> map alert_id (alerts (snd (loadMore (Body ''200'' (Some [mkAlert 2 True None]))
        (mkFeed [mkAlert 1 True None] False 0)))) = [1, 2]
   \<and> page (snd (loadMore (Body ''200'' (Some [mkAlert 2 True None]))
        (mkFeed [mkAlert 1 True None] False 0))) = 1
   \<and> \<not> hasMore (snd (loadMore (Body ''200'' (Some [mkAlert 2 True None]))
        (mkFeed [mkAlert 1 True None] False 0)))"
proof -
  have h: "\<not> hasMore (mkFeed [mkAlert 1 True None] False 0)"
    by (simp add: mkFeed_def)
  show ?thesis
    using h
      loadMore_hasMore_False [OF h, of "Body ''500'' None"]
      loadMore_hasMore_False [OF h, of "Body ''200'' (Some [mkAlert 2 True None])"]
    by (simp add: mkAlert_def mkFeed_def loadMore_def loadMore_request_def)
qed

text \<open>
  C5, as stated: after a successful fetch \<open>hasMore\<close> equals
  (returned count = 10). The code only ever clears the flag: with \<open>hasMore\<close>
  false, a page of exactly ten alerts leaves it false.
\<close>

theorem loadMore_full_page_counterexample:
  "hasMore (loadMore_settle (Body ''200'' (Some tenAlerts)) (mkFeed [] False 0))
     \<noteq> (length tenAlerts = 10)"
  by (simp add: tenAlerts_def mkFeed_def)

text \<open>
  C5, amended: after a successful fetch (result code "200" and a list of alerts)
  the returned alerts stand after all existing entries in the order the server
  gave, \<open>page\<close> has grown by exactly one, and \<open>hasMore\<close> is false when fewer than
  ten alerts were returned and is otherwise what it was; so it equals
  (returned count = 10) when it was true before and at most ten alerts were
  returned.
\<close>

theorem loadMore_success:
  "alerts (loadMore_settle (Body ''200'' (Some newAlerts)) s) = alerts s @ newAlerts
   \<and> page (loadMore_settle (Body ''200'' (Some newAlerts)) s) = page s + 1
   \<and> hasMore (loadMore_settle (Body ''200'' (Some newAlerts)) s)
       = (hasMore s \<and> \<not> length newAlerts < 10)
   \<and> (length newAlerts < 10 \<longrightarrow> \<not> hasMore (loadMore_settle (Body ''200'' (Some newAlerts)) s))
   \<and> (hasMore s \<and> length newAlerts \<le> 10 \<longrightarrow>
        hasMore (loadMore_settle (Body ''200'' (Some newAlerts)) s) = (length newAlerts = 10))"
  by (auto simp: Let_def)

theorem loadMore_success_witness:
  "map alert_id (alerts (loadMore_settle (Body ''200'' (Some [mkAlert 12 True None, mkAlert 13 False None]))
       (mkFeed [mkAlert 11 False None] True 0))) = [11, 12, 13]
   \<and> page (loadMore_settle (Body ''200'' (Some [mkAlert 12 True None, mkAlert 13 False None]))
       (mkFeed [mkAlert 11 False None] True 0)) = 1
   \<and> \<not> hasMore (loadMore_settle (Body ''200'' (Some [mkAlert 12 True None, mkAlert 13 False None]))
       (mkFeed [mkAlert 11 False None] True 0))
   \<and> hasMore (loadMore_settle (Body ''200'' (Some tenAlerts)) (mkFeed [mkAlert 11 False None] True 0))"
  using loadMore_success [of "[mkAlert 12 True None, mkAlert 13 False None]"
          "mkFeed [mkAlert 11 False None] True 0"]
        loadMore_success [of tenAlerts "mkFeed [mkAlert 11 False None] True 0"]
  by (simp add: mkFeed_def mkAlert_def tenAlerts_def)

subsection \<open>Acknowledging alerts as read\<close>

lemma markRead_idem:
  "map (\<lambda>a. if alert_id a \<in> set ids then a\<lparr>isRead := True\<rparr> else a)
     (map (\<lambda>a. if alert_id a \<in> set ids then a\<lparr>isRead := True\<rparr> else a) as)
   = map (\<lambda>a. if alert_id a \<in> set ids then a\<lparr>isRead := True\<rparr> else a) as"
  by (induction as) auto

lemma readAlerts_settle_idem:
  "readAlerts_settle reply ids (readAlerts_settle reply ids s) = readAlerts_settle reply ids s"
  by (simp add: readAlerts_settle_def markRead_idem)

lemma markRead_absent:
  "set ids \<inter> alert_id ` set as = {} \<Longrightarrow>
   map (\<lambda>a. if alert_id a \<in> set ids then a\<lparr>isRead := True\<rparr> else a) as = as"
  by (induction as) auto

lemma unreadAlertIds_markRead:
  "unreadAlertIds (map (\<lambda>a. if alert_id a \<in> set ids then a\<lparr>isRead := True\<rparr> else a) as)
   = filter (\<lambda>i. i \<notin> set ids) (unreadAlertIds as)"
  by (induction as) (auto simp: unreadAlertIds_def)

text \<open>
  \<open>readAlerts\<close> writes \<open>unreadAlerts\<close> itself, and the change of \<open>alerts\<close> then
  runs the effect on \<open>[alerts]\<close>, which writes it again. Both write the same list
  when \<open>unreadAlerts\<close> was the one derived from \<open>alerts\<close> before.
\<close>

lemma readAlerts_settle_keeps_unread_derived:
  "unreadAlerts s = unreadAlertIds (alerts s) \<Longrightarrow>
   alertsEffect (readAlerts_settle reply ids s) = readAlerts_settle reply ids s"
  by (simp add: alertsEffect_def readAlerts_settle_def unreadAlertIds_markRead)

text \<open>
  C7. \<open>readAlerts(ids)\<close> changes nothing when the request fails (the fetch rejects
  or the status is outside 200 to 299). When it succeeds, the feed keeps its
  length, the entry at each position is the old one with \<open>isRead\<close> set to true if
  its id is among \<open>ids\<close> and the old one itself otherwise, the unread list loses
  exactly the ids among \<open>ids\<close>, ids that no entry carries change no entry, and
  \<open>page\<close> and \<open>hasMore\<close> stay. Applying the update a second time changes nothing
  more.
\<close>

theorem readAlerts_atomic:
  "(\<not> ok reply \<longrightarrow> readAlerts_settle reply ids s = s)
   \<and> (ok reply \<longrightarrow>
        length (alerts (readAlerts_settle reply ids s)) = length (alerts s)
        \<and> (\<forall>i < length (alerts s).
             alerts (readAlerts_settle reply ids s) ! i
               = (if alert_id (alerts s ! i) \<in> set ids
                  then (alerts s ! i)\<lparr>isRead := True\<rparr> else alerts s ! i))
        \<and> unreadAlerts (readAlerts_settle reply ids s)
             = filter (\<lambda>i. i \<notin> set ids) (unreadAlerts s)
        \<and> set (unreadAlerts (readAlerts_settle reply ids s)) = set (unreadAlerts s) - set ids
        \<and> (set ids \<inter> alert_id ` set (alerts s) = {} \<longrightarrow>
             alerts (readAlerts_settle reply ids s) = alerts s)
        \<and> hasMore (readAlerts_settle reply ids s) = hasMore s
        \<and> page (readAlerts_settle reply ids s) = page s)
   \<and> readAlerts_settle reply ids (readAlerts_settle reply ids s) = readAlerts_settle reply ids s"
proof -
  have idem: "readAlerts_settle reply ids (readAlerts_settle reply ids s)
                = readAlerts_settle reply ids s"
    by (rule readAlerts_settle_idem)
  have fail: "\<not> ok reply \<longrightarrow> readAlerts_settle reply ids s = s"
    by (simp add: readAlerts_settle_def)
  have absent: "ok reply \<longrightarrow> set ids \<inter> alert_id ` set (alerts s) = {} \<longrightarrow>
             alerts (readAlerts_settle reply ids s) = alerts s"
    by (simp add: readAlerts_settle_def markRead_absent)
  have unread: "ok reply \<longrightarrow>
      set (unreadAlerts (readAlerts_settle reply ids s)) = set (unreadAlerts s) - set ids"
    by (auto simp: readAlerts_settle_def)
  have rest: "ok reply \<longrightarrow>
        length (alerts (readAlerts_settle reply ids s)) = length (alerts s)
        \<and> (\<forall>i < length (alerts s).
             alerts (readAlerts_settle reply ids s) ! i
               = (if alert_id (alerts s ! i) \<in> set ids
                  then (alerts s ! i)\<lparr>isRead := True\<rparr> else alerts s ! i))
        \<and> unreadAlerts (readAlerts_settle reply ids s)
             = filter (\<lambda>i. i \<notin> set ids) (unreadAlerts s)
        \<and> hasMore (readAlerts_settle reply ids s) = hasMore s
        \<and> page (readAlerts_settle reply ids s) = page s"
    by (simp add: readAlerts_settle_def)
  from idem fail absent unread rest show ?thesis by blast
qed

theorem readAlerts_atomic_witness:
  "\<not> ok (Status 500) \<and> ok (Status 204)
   \<and> readAlerts_settle (Status 500) [11, 3, 99]
        (mkFeed [mkAlert 11 False None, mkAlert 1 False None, mkAlert 3 False None] True 0)
      = mkFeed [mkAlert 11 False None, mkAlert 1 False None, mkAlert 3 False None] True 0
   \<and> map isRead (alerts (readAlerts_settle (Status 204) [11, 3, 99]
        (mkFeed [mkAlert 11 False None, mkAlert 1 False None, mkAlert 3 False None] True 0)))
      = [True, False, True]
   \<and> unreadAlerts (readAlerts_settle (Status 204) [11, 3, 99]
        (mkFeed [mkAlert 11 False None, mkAlert 1 False None, mkAlert 3 False None] True 0))
      = [1]
   \<and> alerts (readAlerts_settle (Status 204) [99]
        (mkFeed [mkAlert 11 False None, mkAlert 1 False None, mkAlert 3 False None] True 0))
      = [mkAlert 11 False None, mkAlert 1 False None, mkAlert 3 False None]"
  using readAlerts_atomic [of "Status 500" "[11, 3, 99]"
          "mkFeed [mkAlert 11 False None, mkAlert 1 False None, mkAlert 3 False None] True 0"]
        readAlerts_atomic [of "Status 204" "[11, 3, 99]"
          "mkFeed [mkAlert 11 False None, mkAlert 1 False None, mkAlert 3 False None] True 0"]
        readAlerts_atomic [of "Status 204" "[99]"
          "mkFeed [mkAlert 11 False None, mkAlert 1 False None, mkAlert 3 False None] True 0"]
  by (simp add: mkFeed_def mkAlert_def unreadAlertIds_def readAlerts_settle_def)

subsection \<open>Closing the feed\<close>

text \<open>
  C8. When \<open>isOpen\<close> goes from true to false, the effect on \<open>[isOpen]\<close> calls
  \<open>readAlerts\<close> exactly once, with the ids of all alerts whose \<open>isRead\<close> is false,
  if there is such an alert, and does not call it if there is none.
\<close>

theorem closing_feed_reads_unread:
  "(map alert_id (filter (\<lambda>a. \<not> isRead a) (alerts s)) \<noteq> [] \<longrightarrow>
      isOpenChanged True False s = [map alert_id (filter (\<lambda>a. \<not> isRead a) (alerts s))])
   \<and> (map alert_id (filter (\<lambda>a. \<not> isRead a) (alerts s)) = [] \<longrightarrow>
      isOpenChanged True False s = [])"
  by (cases "alerts s") (auto simp: isOpenChanged_def isOpenEffect_def unreadAlertIds_def Let_def)

theorem closing_feed_reads_unread_witness:
  "fetchInitialAlerts_settle (InitialBody ''200'' (Content tenAlerts)) initial
     = Inr (initial\<lparr>alerts := tenAlerts\<rparr>)
   \<and> isOpenChanged True False
     (onAlertMessage (Json (mkAlert 11 False None)) (initial\<lparr>alerts := tenAlerts\<rparr>))
     = [[11, 1, 2, 3, 4, 5, 6, 7, 8, 9, 10]]
   \<and> isOpenChanged True False
     (readAlerts_settle (Status 200) [11, 1, 2, 3, 4, 5, 6, 7, 8, 9, 10]
       (onAlertMessage (Json (mkAlert 11 False None)) (initial\<lparr>alerts := tenAlerts\<rparr>)))
     = []"
proof -
  let ?s1 = "onAlertMessage (Json (mkAlert 11 False None)) (initial\<lparr>alerts := tenAlerts\<rparr>)"
  let ?s2 = "readAlerts_settle (Status 200) [11, 1, 2, 3, 4, 5, 6, 7, 8, 9, 10] ?s1"
  have s0: "fetchInitialAlerts_settle (InitialBody ''200'' (Content tenAlerts)) initial
              = Inr (initial\<lparr>alerts := tenAlerts\<rparr>)"
    by (simp add: initial_def tenAlerts_def)
  have a1: "alerts ?s1 = mkAlert 11 False None # tenAlerts"
    by simp
  have u1: "map alert_id (filter (\<lambda>a. \<not> isRead a) (alerts ?s1))
              = [11, 1, 2, 3, 4, 5, 6, 7, 8, 9, 10]"
    unfolding a1 by (simp add: tenAlerts_def mkAlert_def)
  have a2: "alerts ?s2 = mkAlert 11 True None # map (\<lambda>a. a\<lparr>isRead := True\<rparr>) tenAlerts"
    unfolding readAlerts_settle_def by (simp add: a1 tenAlerts_def mkAlert_def)
  have u2: "map alert_id (filter (\<lambda>a. \<not> isRead a) (alerts ?s2)) = []"
    unfolding a2 by (simp add: tenAlerts_def mkAlert_def)
  have c1: "isOpenChanged True False ?s1 = [[11, 1, 2, 3, 4, 5, 6, 7, 8, 9, 10]]"
    using closing_feed_reads_unread [of ?s1] unfolding u1 by simp
  have c2: "isOpenChanged True False ?s2 = []"
    using closing_feed_reads_unread [of ?s2] unfolding u2 by simp
  from s0 c1 c2 show ?thesis by (intro conjI)
qed

subsection \<open>Answering a friend request\<close>

lemma map_processed_absent:
  "alertId \<notin> alert_id ` set as \<Longrightarrow>
   map (\<lambda>a. if alert_id a = alertId then a\<lparr>processedAction := p\<rparr> else a) as = as"
  by (induction as) auto

lemma map_processed_marked:
  assumes "a \<in> set (map (\<lambda>a. if alert_id a = alertId then a\<lparr>processedAction := p\<rparr> else a) as)"
    and "alert_id a = alertId"
  shows "processedAction a = p"
proof -
  from assms(1)
  have "a \<in> (\<lambda>a. if alert_id a = alertId then a\<lparr>processedAction := p\<rparr> else a) ` set as"
    by (simp only: set_map)
  then obtain b
    where b: "a = (if alert_id b = alertId then b\<lparr>processedAction := p\<rparr> else b)"
    by blast
  show ?thesis
  proof (cases "alert_id b = alertId")
    case True
    with b show ?thesis by simp
  next
    case False
    with b assms(2) show ?thesis by simp
  qed
qed

text \<open>
  C3, as stated: an alert whose \<open>processedAction\<close> is set keeps it when a later
  request succeeds. The update does not look at the old value: an alert marked
  with the reject label carries the accept label after a successful accept.
\<close>

theorem processedAction_overwritten_counterexample:
  "map processedAction (alerts (mkFeed [mkAlert 11 False (Some rejectLabel)] True 0))
     = [Some rejectLabel]
   \<and> ok (Status 200)
   \<and> map processedAction (alerts (fst (handleFriendRequest_settle (Status 200) 5 11 Accept
        (mkFeed [mkAlert 11 False (Some rejectLabel)] True 0))))
     = [Some acceptLabel]
   \<and> Some acceptLabel \<noteq> Some rejectLabel"
  by (simp add: handleFriendRequest_settle_def mkFeed_def mkAlert_def acceptLabel_def rejectLabel_def)

text \<open>
  C3, amended: setting a processed action is last-write-wins. After a successful
  \<open>handleFriendRequest\<close> the entry at each position has the label of the action
  as its \<open>processedAction\<close> if its id is \<open>alertId\<close>, whether or not one was set
  before, and its old \<open>processedAction\<close> otherwise.
\<close>

theorem processedAction_last_write_wins:
  assumes "ok reply" and "i < length (alerts s)"
  shows "processedAction (alerts (fst (handleFriendRequest_settle reply requestId alertId act s)) ! i)
         = (if alert_id (alerts s ! i) = alertId then Some (actionLabel act)
            else processedAction (alerts s ! i))"
  using assms by (simp add: handleFriendRequest_settle_def)

theorem processedAction_last_write_wins_witness:
  "ok (Status 200)
   \<and> (0::nat) < length (alerts (mkFeed [mkAlert 11 False (Some rejectLabel),
                                        mkAlert 12 False (Some rejectLabel)] True 0))
   \<and> processedAction (alerts (fst (handleFriendRequest_settle (Status 200) 5 11 Accept
        (mkFeed [mkAlert 11 False (Some rejectLabel), mkAlert 12 False (Some rejectLabel)] True 0))) ! 0)
      = Some acceptLabel
   \<and> processedAction (alerts (fst (handleFriendRequest_settle (Status 200) 5 11 Accept
        (mkFeed [mkAlert 11 False (Some rejectLabel), mkAlert 12 False (Some rejectLabel)] True 0))) ! 1)
      = Some rejectLabel"
proof -
  let ?s = "mkFeed [mkAlert 11 False (Some rejectLabel), mkAlert 12 False (Some rejectLabel)] True 0"
  have h: "ok (Status 200)" by simp
  have l0: "0 < length (alerts ?s)" by (simp add: mkFeed_def)
  have l1: "1 < length (alerts ?s)" by (simp add: mkFeed_def)
  show ?thesis
    using h l0
      processedAction_last_write_wins [OF h l0, where requestId = 5 and alertId = 11 and act = Accept]
      processedAction_last_write_wins [OF h l1, where requestId = 5 and alertId = 11 and act = Accept]
    by (simp add: mkFeed_def mkAlert_def)
qed

text \<open>
  C9. When \<open>handleFriendRequest(requestId, alertId, action)\<close> succeeds, the alerts
  with id \<open>alertId\<close> get the localized label of the action as \<open>processedAction\<close>:
  for accept the 13 bytes of the Korean for "acceptance done", for reject the 13
  bytes of the Korean for "rejection done" (UTF-8, as in the two literals of the
  source). All other alerts are as before, and exactly one event,
  \<open>friendRequestProcessed\<close> with \<open>{requestId, action}\<close>, is dispatched. When the
  request fails, the state is unchanged and no event is dispatched.
\<close>

theorem handleFriendRequest_outcome:
  "(ok reply \<longrightarrow>
      alerts (fst (handleFriendRequest_settle reply requestId alertId act s))
        = map (\<lambda>a. if alert_id a = alertId
                    then a\<lparr>processedAction := Some
                      (case act of
                         Accept \<Rightarrow> [CHR 0xEC, CHR 0x88, CHR 0x98, CHR 0xEB, CHR 0x9D, CHR 0xBD, CHR 0x20,
                                    CHR 0xEC, CHR 0x99, CHR 0x84, CHR 0xEB, CHR 0xA3, CHR 0x8C]
                       | Reject \<Rightarrow> [CHR 0xEA, CHR 0xB1, CHR 0xB0, CHR 0xEC, CHR 0xA0, CHR 0x88, CHR 0x20,
                                    CHR 0xEC, CHR 0x99, CHR 0x84, CHR 0xEB, CHR 0xA3, CHR 0x8C])\<rparr>
                    else a) (alerts s)
      \<and> (\<forall>a \<in> set (alerts (fst (handleFriendRequest_settle reply requestId alertId act s))).
            alert_id a = alertId \<longrightarrow>
            processedAction a = Some
              (case act of
                 Accept \<Rightarrow> [CHR 0xEC, CHR 0x88, CHR 0x98, CHR 0xEB, CHR 0x9D, CHR 0xBD, CHR 0x20,
                            CHR 0xEC, CHR 0x99, CHR 0x84, CHR 0xEB, CHR 0xA3, CHR 0x8C]
               | Reject \<Rightarrow> [CHR 0xEA, CHR 0xB1, CHR 0xB0, CHR 0xEC, CHR 0xA0, CHR 0x88, CHR 0x20,
                            CHR 0xEC, CHR 0x99, CHR 0x84, CHR 0xEB, CHR 0xA3, CHR 0x8C]))
      \<and> snd (handleFriendRequest_settle reply requestId alertId act s)
        = [CustomEvent ''friendRequestProcessed'' requestId act])
   \<and> (\<not> ok reply \<longrightarrow> handleFriendRequest_settle reply requestId alertId act s = (s, []))"
proof -
  have upd: "ok reply \<longrightarrow>
      alerts (fst (handleFriendRequest_settle reply requestId alertId act s))
        = map (\<lambda>a. if alert_id a = alertId
                    then a\<lparr>processedAction := Some (actionLabel act)\<rparr> else a) (alerts s)"
    by (simp add: handleFriendRequest_settle_def)
  have marked: "ok reply \<longrightarrow>
      (\<forall>a \<in> set (alerts (fst (handleFriendRequest_settle reply requestId alertId act s))).
            alert_id a = alertId \<longrightarrow> processedAction a = Some (actionLabel act))"
  proof (intro impI ballI)
    fix a
    assume "ok reply"
      and "a \<in> set (alerts (fst (handleFriendRequest_settle reply requestId alertId act s)))"
      and "alert_id a = alertId"
    then show "processedAction a = Some (actionLabel act)"
      using upd by (simp only: map_processed_marked)
  qed
  have ev: "ok reply \<longrightarrow> snd (handleFriendRequest_settle reply requestId alertId act s)
        = [CustomEvent ''friendRequestProcessed'' requestId act]"
    by (simp add: handleFriendRequest_settle_def)
  have fail: "\<not> ok reply \<longrightarrow> handleFriendRequest_settle reply requestId alertId act s = (s, [])"
    by (simp add: handleFriendRequest_settle_def)
  have label:
    "actionLabel act =
       (case act of
          Accept \<Rightarrow> [CHR 0xEC, CHR 0x88, CHR 0x98, CHR 0xEB, CHR 0x9D, CHR 0xBD, CHR 0x20,
                     CHR 0xEC, CHR 0x99, CHR 0x84, CHR 0xEB, CHR 0xA3, CHR 0x8C]
        | Reject \<Rightarrow> [CHR 0xEA, CHR 0xB1, CHR 0xB0, CHR 0xEC, CHR 0xA0, CHR 0x88, CHR 0x20,
                     CHR 0xEC, CHR 0x99, CHR 0x84, CHR 0xEB, CHR 0xA3, CHR 0x8C])"
    by (cases act) (simp_all add: acceptLabel_def rejectLabel_def)
  from upd marked ev fail show ?thesis
    unfolding label by blast
qed

theorem handleFriendRequest_outcome_witness:
  "ok (Status 200) \<and> \<not> ok (Status 404)
   \<and> map processedAction (alerts (fst (handleFriendRequest_settle (Status 200) 5 11 Accept
        (mkFeed [mkAlert 11 False None, mkAlert 1 True None] True 0))))
      = [Some [CHR 0xEC, CHR 0x88, CHR 0x98, CHR 0xEB, CHR 0x9D, CHR 0xBD, CHR 0x20,
                CHR 0xEC, CHR 0x99, CHR 0x84, CHR 0xEB, CHR 0xA3, CHR 0x8C], None]
   \<and> map processedAction (alerts (fst (handleFriendRequest_settle (Status 200) 6 1 Reject
        (mkFeed [mkAlert 11 False None, mkAlert 1 True None] True 0))))
      = [None, Some [CHR 0xEA, CHR 0xB1, CHR 0xB0, CHR 0xEC, CHR 0xA0, CHR 0x88, CHR 0x20,
                      CHR 0xEC, CHR 0x99, CHR 0x84, CHR 0xEB, CHR 0xA3, CHR 0x8C]]
   \<and> snd (handleFriendRequest_settle (Status 200) 5 11 Accept
        (mkFeed [mkAlert 11 False None, mkAlert 1 True None] True 0))
      = [CustomEvent ''friendRequestProcessed'' 5 Accept]
   \<and> snd (handleFriendRequest_settle (Status 200) 6 1 Reject
        (mkFeed [mkAlert 11 False None, mkAlert 1 True None] True 0))
      = [CustomEvent ''friendRequestProcessed'' 6 Reject]
   \<and> handleFriendRequest_settle (Status 404) 5 11 Accept
        (mkFeed [mkAlert 11 False None, mkAlert 1 True None] True 0)
      = (mkFeed [mkAlert 11 False None, mkAlert 1 True None] True 0, [])"
  using handleFriendRequest_outcome [where reply = "Status 200" and requestId = 5 and alertId = 11
          and act = Accept and s = "mkFeed [mkAlert 11 False None, mkAlert 1 True None] True 0"]
        handleFriendRequest_outcome [where reply = "Status 200" and requestId = 6 and alertId = 1
          and act = Reject and s = "mkFeed [mkAlert 11 False None, mkAlert 1 True None] True 0"]
        handleFriendRequest_outcome [where reply = "Status 404" and requestId = 5 and alertId = 11
          and act = Accept and s = "mkFeed [mkAlert 11 False None, mkAlert 1 True None] True 0"]
  by (simp add: mkFeed_def mkAlert_def)

text \<open>
  C10. When no alert of the feed has the id \<open>alertId\<close>, a successful
  \<open>handleFriendRequest(requestId, alertId, action)\<close> leaves the whole state as it
  was, and the event \<open>friendRequestProcessed\<close> with \<open>{requestId, action}\<close> is
  dispatched all the same.
\<close>

theorem handleFriendRequest_unknown_alert:
  assumes "ok reply" and "alertId \<notin> alert_id ` set (alerts s)"
  shows "handleFriendRequest_settle reply requestId alertId act s
         = (s, [CustomEvent ''friendRequestProcessed'' requestId act])"
  using assms by (simp add: handleFriendRequest_settle_def map_processed_absent)

theorem handleFriendRequest_unknown_alert_witness:
  "ok (Status 200)
   \<and> 12 \<notin> alert_id ` set (alerts (mkFeed [mkAlert 11 False None, mkAlert 1 True None] True 0))
   \<and> handleFriendRequest_settle (Status 200) 5 12 Reject
        (mkFeed [mkAlert 11 False None, mkAlert 1 True None] True 0)
      = (mkFeed [mkAlert 11 False None, mkAlert 1 True None] True 0,
         [CustomEvent ''friendRequestProcessed'' 5 Reject])"
proof -
  have h: "ok (Status 200)" by simp
  have a: "12 \<notin> alert_id ` set (alerts (mkFeed [mkAlert 11 False None, mkAlert 1 True None] True 0))"
    by (simp add: mkFeed_def mkAlert_def)
  show ?thesis
    using h a handleFriendRequest_unknown_alert [OF h a, where requestId = 5 and act = Reject]
    by simp
qed

end
